theory Spec2Isabelle
  imports Complex_Main "HOL-Library.Word" "HOL-Library.Sublist"
begin

section \<open>Python values shared by the server and the client\<close>

text \<open>
  Exceptions of class \<open>Exception\<close> that the modelled code raises itself or
  catches from a library call. Library calls are parameters of the model (an
  environment record); what they raise is a value of this type.
\<close>

datatype py_exception =
    IndexError
  | TypeError
  | FileNotFoundError string
  | OSError string
  | OtherException string

text \<open>
  JSON-like values: the dict and list literals the source builds. A dict is
  an association list in insertion order.
\<close>

datatype json =
    JNull
  | JInt int
  | JNum real
  | JStr string
  | JList "json list"
  | JObj "(string \<times> json) list"

definition dict_keys :: "json \<Rightarrow> string list" where
  "dict_keys j = (case j of JObj kvs \<Rightarrow> map fst kvs | _ \<Rightarrow> [])"

definition dict_get :: "json \<Rightarrow> string \<Rightarrow> json option" where
  "dict_get j k = (case j of JObj kvs \<Rightarrow> map_of kvs k | _ \<Rightarrow> None)"

subsection \<open>Strings\<close>

text \<open>
  \<open>str.lower()\<close>. Strings are read as ASCII text, the alphabet of the
  media types and adapter names compared below: the capitals A..Z move by
  0x20, and every other byte stays as it is.
\<close>

definition lower_char :: "char \<Rightarrow> char" where
  "lower_char c =
     (let n = (of_char c :: nat)
      in if 65 \<le> n \<and> n \<le> 90 then char_of (n + 32) else c)"

definition lower :: "string \<Rightarrow> string" where
  "lower s = map lower_char s"

text \<open>\<open>str(n)\<close> for a Python int: decimal digits, a minus sign when negative.\<close>

definition digit_char :: "nat \<Rightarrow> char" where
  "digit_char d = ''0123456789'' ! (d mod 10)"

function str_nat :: "nat \<Rightarrow> string" where
  "str_nat n = (if n < 10 then [digit_char n] else str_nat (n div 10) @ [digit_char (n mod 10)])"
  by pat_completeness auto
termination
  by (relation "measure id") auto

declare str_nat.simps [simp del]

definition str_int :: "int \<Rightarrow> string" where
  "str_int i = (if i < 0 then CHR ''-'' # str_nat (nat (- i)) else str_nat (nat i))"

text \<open>\<open>s.startswith(p)\<close> and \<open>p in s\<close> on strings.\<close>

definition startswith :: "string \<Rightarrow> string \<Rightarrow> bool" where
  "startswith s p = (take (length p) s = p)"

fun str_contains :: "string \<Rightarrow> string \<Rightarrow> bool" where
  "str_contains p [] = (p = [])"
| "str_contains p (c # cs) = (startswith (c # cs) p \<or> str_contains p cs)"

subsection \<open>Paths (pathlib on a POSIX system)\<close>

text \<open>
  \<open>Path(s)\<close> keeps the components of \<open>s\<close> between slashes that are neither
  empty nor a single dot. \<open>Path(s).name\<close> is the last of them (empty when
  there is none) and \<open>str(Path(s))\<close> joins them again behind the root.
\<close>

fun split_slash :: "string \<Rightarrow> string list" where
  "split_slash [] = [[]]"
| "split_slash (c # cs) =
     (if c = CHR ''/'' then [] # split_slash cs
      else (case split_slash cs of [] \<Rightarrow> [[c]] | p # ps \<Rightarrow> (c # p) # ps))"

definition path_parts :: "string \<Rightarrow> string list" where
  "path_parts s = filter (\<lambda>p. p \<noteq> [] \<and> p \<noteq> ''.'') (split_slash s)"

definition path_root :: "string \<Rightarrow> string" where
  "path_root s =
     (if startswith s ''//'' \<and> \<not> startswith s ''///'' then ''//''
      else if startswith s ''/'' then ''/'' else [])"

fun join_slash :: "string list \<Rightarrow> string" where
  "join_slash [] = []"
| "join_slash [p] = p"
| "join_slash (p # q # ps) = p @ CHR ''/'' # join_slash (q # ps)"

definition path_str :: "string \<Rightarrow> string" where
  "path_str s =
     (let r = path_root s; ps = path_parts s
      in if r = [] \<and> ps = [] then ''.'' else r @ join_slash ps)"

definition path_name :: "string \<Rightarrow> string" where
  "path_name s = (case rev (path_parts s) of [] \<Rightarrow> [] | p # _ \<Rightarrow> p)"

text \<open>
  \<open>str(Path(d) / f)\<close>: an absolute right operand replaces the left one;
  otherwise its components follow those of the left operand, behind the left
  operand's root.
\<close>

definition path_join :: "string \<Rightarrow> string \<Rightarrow> string" where
  "path_join d f =
     (if startswith f ''/'' then path_str f
      else (let r = path_root d; ps = path_parts d @ path_parts f
            in if r = [] \<and> ps = [] then ''.'' else r @ join_slash ps))"

section \<open>app/model.py: the stub model\<close>

text \<open>\<open>StubModel.infer\<close> (lines 30-38): a dict literal, nothing else.\<close>

definition StubModel_infer :: "string \<Rightarrow> json" where
  "StubModel_infer image_path =
     JObj [(''image'', JStr (path_str image_path)),
           (''width'', JNull),
           (''height'', JNull),
           (''detections'', JList []),
           (''model'', JObj [(''adapter'', JStr ''stub''),
                             (''mode'', JStr ''dry-run''),
                             (''version'', JNull)])]"

section \<open>app/utils/postprocess.py: format_detections\<close>

text \<open>
  \<open>names.get(int(c), str(int(c)))\<close>; the classes are ints (the annotation
  \<open>List[int]\<close>), so \<open>int(c)\<close> is \<open>c\<close>.
\<close>

definition label_of :: "(int \<rightharpoonup> string) \<Rightarrow> int \<Rightarrow> string" where
  "label_of names c = (case names c of Some l \<Rightarrow> l | None \<Rightarrow> str_int c)"

text \<open>
  The dict appended for one zipped triple (lines 16-22). \<open>b[0]\<close> .. \<open>b[3]\<close>
  raise IndexError on a box with fewer than four coordinates.
\<close>

definition detection_dict :: "(int \<rightharpoonup> string) \<Rightarrow> real list \<Rightarrow> real \<Rightarrow> int \<Rightarrow> py_exception + json" where
  "detection_dict names b s c =
     (let l = label_of names c
      in if length b < 4 then Inl IndexError
         else Inr (JObj [(''box'', JList [JNum (b ! 0), JNum (b ! 1), JNum (b ! 2), JNum (b ! 3)]),
                         (''score'', JNum s),
                         (''class_id'', JInt c),
                         (''label'', JStr l)]))"

text \<open>The \<open>for\<close> loop over \<open>zip(boxes, scores, classes)\<close>, appending to \<open>out\<close>.\<close>

fun format_loop :: "(int \<rightharpoonup> string) \<Rightarrow> (real list \<times> real \<times> int) list \<Rightarrow> json list \<Rightarrow> py_exception + json list" where
  "format_loop names [] out = Inr out"
| "format_loop names ((b, s, c) # rest) out =
     (case detection_dict names b s c of
        Inl e \<Rightarrow> Inl e
      | Inr d \<Rightarrow> format_loop names rest (out @ [d]))"

text \<open>\<open>names = names or {}\<close>: a missing table is the empty one.\<close>

definition format_detections ::
  "real list list \<Rightarrow> real list \<Rightarrow> int list \<Rightarrow> (int \<rightharpoonup> string) option \<Rightarrow> py_exception + json list" where
  "format_detections boxes scores classes names =
     format_loop (case names of None \<Rightarrow> Map.empty | Some m \<Rightarrow> m) (zip boxes (zip scores classes)) []"

text \<open>
  The dict of one detection with the box written as a slice; on a box of at
  least four coordinates it is the dict \<open>detection_dict\<close> builds.
\<close>

definition detection_json :: "(int \<rightharpoonup> string) \<Rightarrow> real list \<Rightarrow> real \<Rightarrow> int \<Rightarrow> json" where
  "detection_json names b s c =
     JObj [(''box'', JList (map JNum (take 4 b))),
           (''score'', JNum s),
           (''class_id'', JInt c),
           (''label'', JStr (label_of names c))]"

section \<open>client/http.py: the retrying client\<close>

text \<open>
  The fields of \<open>YoloHTTPClient\<close> that the attempt loop reads. The base URL,
  the API key, the timeout and the headers only shape the request that is
  sent. \<open>backoff_factor\<close> is a finite float, a real number of seconds.
\<close>

record http_client =
  retries :: nat
  backoff_factor :: real
  retry_statuses :: "int set"

text \<open>\<open>__init__\<close> (lines 37-43): at least one attempt; the default retry set.\<close>

definition YoloHTTPClient :: "int \<Rightarrow> real \<Rightarrow> int set option \<Rightarrow> http_client" where
  "YoloHTTPClient retries_arg backoff_arg retry_statuses_arg =
     \<lparr> retries = nat (max 1 retries_arg),
       backoff_factor = backoff_arg,
       retry_statuses = (case retry_statuses_arg of
                           None \<Rightarrow> {429, 500, 502, 503, 504}
                         | Some s \<Rightarrow> s) \<rparr>"

text \<open>
  What \<open>client.post\<close> does at one attempt: it raises \<open>httpx.RequestError\<close>
  (connection refused, timeout, reset) or returns a response with a status
  code and a JSON body.
\<close>

datatype post_result =
    RequestError string
  | Response int json

text \<open>
  The exceptions \<open>predict\<close> can raise. \<open>HTTPStatusError\<close> carries its
  message and the response (status, body). \<open>RaiseNone\<close> is the TypeError of
  \<open>raise None\<close>. \<open>ValueError\<close> and \<open>OverflowError\<close> come from the backoff
  arithmetic and from the sleep.
\<close>

datatype client_error =
    FileNotFound string
  | HTTPRequestError string
  | HTTPStatusError string int json
  | RaiseNone
  | ValueError string
  | OverflowError string

text \<open>
  The largest finite float, \<open>(2 - 2^-52) * 2^1023\<close>. A float product beyond
  it is an infinity.
\<close>

definition FLOAT_MAX :: real where
  "FLOAT_MAX = 2 ^ 1024 - 2 ^ 971"

text \<open>
  \<open>_get_backoff\<close> (line 51): \<open>self.backoff_factor * (2 ** (attempt - 1))\<close>.
  The int \<open>2 ** (attempt - 1)\<close> is converted to a float for the product,
  which raises OverflowError from \<open>2 ** 1024\<close> on; \<open>2 ** (-1)\<close> is one half.
  Scaling a float by a power of two is exact; the result is the real
  product, read as an infinity when it lies beyond \<open>FLOAT_MAX\<close>.
\<close>

definition get_backoff :: "http_client \<Rightarrow> nat \<Rightarrow> client_error + real" where
  "get_backoff c attempt =
     (if 1024 \<le> attempt - 1 then Inl (OverflowError ''int too large to convert to float'')
      else Inr (backoff_factor c * (if 1 \<le> attempt then 2 ^ (attempt - 1) else 1 / 2)))"

text \<open>
  The world of one call: whether the image file exists, what the server does
  at attempt k (numbered from 1), the message \<open>raise_for_status\<close> gives its
  exception, and the longest duration \<open>time.sleep\<close> accepts on the platform
  (about 2^63 nanoseconds in CPython, far below \<open>FLOAT_MAX\<close>).
  \<open>raise_for_status\<close> raises on a status of 400 or more.
\<close>

record network =
  image_exists :: bool
  post :: "nat \<Rightarrow> post_result"
  status_message :: "int \<Rightarrow> string"
  sleep_max :: real

text \<open>
  What a sleep does with a duration: it returns after having waited so many
  seconds, it raises, or it never returns.
\<close>

datatype sleep_result =
    Slept real
  | SleepRaises client_error
  | SleepsForever

text \<open>
  \<open>time.sleep(d)\<close> (line 79): OverflowError when the duration does not fit
  the platform's time type (an infinity included), ValueError when it is
  negative; otherwise the thread waits \<open>d\<close> seconds.
\<close>

definition time_sleep :: "network \<Rightarrow> real \<Rightarrow> sleep_result" where
  "time_sleep env d =
     (if d < - sleep_max env \<or> sleep_max env < d
      then SleepRaises (OverflowError ''timestamp too large to convert to C _PyTime_t'')
      else if d < 0 then SleepRaises (ValueError ''sleep length must be non-negative'')
      else Slept d)"

text \<open>
  \<open>await asyncio.sleep(d)\<close> (line 111): a delay of zero or less yields to the
  event loop once and returns; a positive delay returns after \<open>d\<close> seconds, and
  an infinite one never.
\<close>

definition asyncio_sleep :: "real \<Rightarrow> sleep_result" where
  "asyncio_sleep d =
     (if d \<le> 0 then Slept 0
      else if FLOAT_MAX < d then SleepsForever
      else Slept d)"

text \<open>
  The body of the \<open>try\<close> (lines 65-73): \<open>Inl\<close> is the exception that reaches
  the \<open>except\<close> clause, which catches both RequestError and HTTPStatusError.
\<close>

definition attempt_once :: "http_client \<Rightarrow> network \<Rightarrow> nat \<Rightarrow> client_error + json" where
  "attempt_once c env attempt =
     (case post env attempt of
        RequestError m \<Rightarrow> Inl (HTTPRequestError m)
      | Response st body \<Rightarrow>
          if st \<in> retry_statuses c
          then Inl (HTTPStatusError (str_int st @ '' response'') st body)
          else if 400 \<le> st then Inl (HTTPStatusError (status_message env st) st body)
          else Inr body)"

text \<open>\<open>raise last_exc\<close> (line 82).\<close>

definition raise_last :: "client_error option \<Rightarrow> client_error + json" where
  "raise_last last_exc = (case last_exc of None \<Rightarrow> Inl RaiseNone | Some e \<Rightarrow> Inl e)"

text \<open>
  The \<open>for attempt in range(1, self.retries + 1)\<close> loop with the statement
  after it, for a given sleep. The result is what the call returns or
  raises (\<open>None\<close> when it never returns), the number of requests posted, and
  the seconds waited in each completed sleep, in order. An exception raised
  by \<open>_get_backoff\<close> or by the sleep is raised inside the \<open>except\<close> handler
  and leaves the call at once.
\<close>

function attempt_loop ::
  "(real \<Rightarrow> sleep_result) \<Rightarrow> http_client \<Rightarrow> network \<Rightarrow> nat \<Rightarrow> client_error option \<Rightarrow> real list
     \<Rightarrow> (client_error + json) option \<times> nat \<times> real list" where
  "attempt_loop sleep c env attempt last_exc sleeps =
     (if retries c < attempt then (Some (raise_last last_exc), attempt - 1, sleeps)
      else (case attempt_once c env attempt of
              Inr j \<Rightarrow> (Some (Inr j), attempt, sleeps)
            | Inl e \<Rightarrow>
                if attempt = retries c then (Some (raise_last (Some e)), attempt, sleeps)
                else (case get_backoff c attempt of
                        Inl err \<Rightarrow> (Some (Inl err), attempt, sleeps)
                      | Inr backoff \<Rightarrow>
                          (case sleep backoff of
                             SleepRaises err \<Rightarrow> (Some (Inl err), attempt, sleeps)
                           | SleepsForever \<Rightarrow> (None, attempt, sleeps)
                           | Slept w \<Rightarrow>
                               attempt_loop sleep c env (attempt + 1) (Some e) (sleeps @ [w])))))"
  by pat_completeness auto
termination
  by (relation "measure (\<lambda>(sleep, c, env, attempt, last_exc, sleeps). Suc (retries c) - attempt)") auto

declare attempt_loop.simps [simp del]

text \<open>\<open>predict\<close> (lines 53-82): the loop with \<open>time.sleep\<close>.\<close>

definition predict :: "http_client \<Rightarrow> network \<Rightarrow> string
    \<Rightarrow> (client_error + json) option \<times> nat \<times> real list" where
  "predict c env image_path =
     (if \<not> image_exists env then (Some (Inl (FileNotFound (path_str image_path))), 0, [])
      else attempt_loop (time_sleep env) c env 1 None [])"

text \<open>\<open>predict_async\<close> (lines 84-113): the loop with \<open>await asyncio.sleep\<close>.\<close>

definition predict_async :: "http_client \<Rightarrow> network \<Rightarrow> string
    \<Rightarrow> (client_error + json) option \<times> nat \<times> real list" where
  "predict_async c env image_path =
     (if \<not> image_exists env then (Some (Inl (FileNotFound (path_str image_path))), 0, [])
      else attempt_loop asyncio_sleep c env 1 None [])"


text \<open>Sample servers for the concrete runs below.\<close>

definition always_404 :: network where
  "always_404 =
     \<lparr> image_exists = True,
       post = (\<lambda>k. Response 404 (JObj [(''detail'', JStr ''Not Found'')])),
       status_message = (\<lambda>st. str_int st @ '' Error''),
       sleep_max = 9223372036 \<rparr>"




section \<open>app/loader.py: the detector adapter and the model factory\<close>

text \<open>
  The state of a \<open>YolovXAdapter\<close> object. \<open>'d\<close> is the detector object the
  library's \<open>YOLO\<close> constructor returns.
\<close>

record 'd yolo_adapter =
  model :: "'d option"
  mode :: string
  names :: "int \<rightharpoonup> string"
  version :: "string option"

text \<open>\<open>YolovXAdapter.__init__\<close> (lines 21-25).\<close>

definition YolovXAdapter_init :: "'d yolo_adapter" where
  "YolovXAdapter_init = \<lparr> model = None, mode = ''dry-run'', names = Map.empty, version = None \<rparr>"

text \<open>
  The library and operating-system calls the loader makes, as parameters:
  \<^item> \<open>import_ultralytics\<close>: the import at lines 29-30 raises, or gives the
    library's \<open>__version__\<close> (None when it has none);
  \<^item> \<open>os_path_exists\<close>: \<open>os.path.exists\<close>;
  \<^item> \<open>YOLO\<close>: the constructor, called with the weights path or with no
    argument; it raises or returns a detector;
  \<^item> \<open>model_names\<close>: \<open>getattr(self.model, "names", {}) or {}\<close> on a detector;
  \<^item> \<open>normalize_weights\<close>: lines 176-179, \<open>Path(weights).expanduser()\<close>,
    resolved against the project root when relative, as a string;
  \<^item> \<open>stdout_print\<close>: the exception \<open>print\<close> raises, if it does.
  Logging calls do not raise.
\<close>

record 'd runtime =
  import_ultralytics :: "py_exception + string option"
  os_path_exists :: "string \<Rightarrow> bool"
  YOLO :: "string option \<Rightarrow> py_exception + 'd"
  model_names :: "'d \<Rightarrow> py_exception + (int \<rightharpoonup> string)"
  normalize_weights :: "string \<Rightarrow> py_exception + string"
  stdout_print :: "string \<Rightarrow> py_exception option"

text \<open>
  Lines 35-54: the detector is built from the weights when the path is given
  and exists, and without weights otherwise.
\<close>

definition instantiate :: "'d runtime \<Rightarrow> 'd yolo_adapter \<Rightarrow> string option \<Rightarrow> 'd yolo_adapter" where
  "instantiate rt a weights_path =
     (case weights_path of
        Some w \<Rightarrow>
          if w \<noteq> [] \<and> os_path_exists rt w
          then (case YOLO rt (Some w) of
                  Inr d \<Rightarrow> a\<lparr>model := Some d, mode := ''inference''\<rparr>
                | Inl e \<Rightarrow> a\<lparr>model := None, mode := ''no-weights''\<rparr>)
          else (case YOLO rt None of
                  Inr d \<Rightarrow> a\<lparr>model := Some d, mode := ''no-weights''\<rparr>
                | Inl e \<Rightarrow> a\<lparr>model := None, mode := ''no-weights''\<rparr>)
      | None \<Rightarrow>
          (case YOLO rt None of
             Inr d \<Rightarrow> a\<lparr>model := Some d, mode := ''no-weights''\<rparr>
           | Inl e \<Rightarrow> a\<lparr>model := None, mode := ''no-weights''\<rparr>))"

text \<open>Lines 57-60: the class names of the detector, empty when there is none.\<close>

definition read_names :: "'d runtime \<Rightarrow> 'd yolo_adapter \<Rightarrow> 'd yolo_adapter" where
  "read_names rt a =
     a\<lparr>names := (case model a of
                   None \<Rightarrow> Map.empty
                 | Some d \<Rightarrow> (case model_names rt d of Inl e \<Rightarrow> Map.empty | Inr ns \<Rightarrow> ns))\<rparr>"

text \<open>
  \<open>YolovXAdapter.load\<close> (lines 27-66). The whole body is inside
  \<open>try .. except Exception\<close>, so the method returns on every path; the result
  is the object's state afterwards.
\<close>

definition YolovXAdapter_load :: "'d runtime \<Rightarrow> 'd yolo_adapter \<Rightarrow> string option \<Rightarrow> 'd yolo_adapter" where
  "YolovXAdapter_load rt a weights_path =
     (case import_ultralytics rt of
        Inl e \<Rightarrow> a\<lparr>model := None, mode := ''dry-run'', names := Map.empty\<rparr>
      | Inr ver \<Rightarrow> read_names rt (instantiate rt (a\<lparr>version := ver\<rparr>) weights_path))"

text \<open>The two implementations of \<open>BaseModel\<close> that the factory builds.\<close>

datatype 'd base_model =
    StubModel
  | YolovXAdapter "'d yolo_adapter"

text \<open>\<open>StubModel.load\<close> (lines 26-28 of app/model.py): one \<open>print\<close>.\<close>

definition StubModel_load :: "'d runtime \<Rightarrow> string option \<Rightarrow> py_exception + 'd base_model" where
  "StubModel_load rt weights_path =
     (case stdout_print rt ''StubModel loaded (no weights)'' of
        Some e \<Rightarrow> Inl e
      | None \<Rightarrow> Inr StubModel)"

text \<open>\<open>m.load(weights)\<close>: \<open>Inl\<close> when the call raises, else the object afterwards.\<close>

definition model_load :: "'d runtime \<Rightarrow> 'd base_model \<Rightarrow> string option \<Rightarrow> py_exception + 'd base_model" where
  "model_load rt m weights_path =
     (case m of
        StubModel \<Rightarrow> StubModel_load rt weights_path
      | YolovXAdapter a \<Rightarrow> Inr (YolovXAdapter (YolovXAdapter_load rt a weights_path)))"

text \<open>
  Lines 164-171 of \<open>get_model\<close>: \<open>(adapter or "stub").lower()\<close> and the
  choice between the two adapters.
\<close>

definition normalize_adapter :: "string option \<Rightarrow> string" where
  "normalize_adapter adapter =
     lower (case adapter of None \<Rightarrow> ''stub'' | Some a \<Rightarrow> if a = [] then ''stub'' else a)"

definition choose_adapter :: "string \<Rightarrow> string" where
  "choose_adapter adapter =
     (if startswith adapter ''yolo'' \<or> startswith adapter ''yolov''
         \<or> str_contains ''yolovx'' adapter \<or> str_contains ''yolov'' adapter
      then ''yolovx''
      else if adapter \<in> {''yolovx'', ''yolox''} then ''yolovx''
      else ''stub'')"

text \<open>
  Lines 174-181: a given weights path is normalised; when that raises, the
  exception is logged and the path stays as it was.
\<close>

definition normalized_weights :: "'d runtime \<Rightarrow> string option \<Rightarrow> string option" where
  "normalized_weights rt weights =
     (case weights of
        None \<Rightarrow> None
      | Some w \<Rightarrow>
          if w = [] then Some w
          else (case normalize_weights rt w of
                  Inl e \<Rightarrow> Some w
                | Inr w' \<Rightarrow> Some w'))"

text \<open>
  \<open>get_model\<close> (lines 158-196). \<open>Inl\<close> would be an exception that leaves the
  function; \<open>try: m.load(weights) except Exception\<close> keeps the constructed
  object when \<open>load\<close> raises.
\<close>

definition get_model :: "'d runtime \<Rightarrow> string option \<Rightarrow> string option \<Rightarrow> py_exception + 'd base_model" where
  "get_model rt adapter weights =
     (let chosen = choose_adapter (normalize_adapter adapter);
          weights' = normalized_weights rt weights;
          m = (if chosen = ''yolovx'' then YolovXAdapter YolovXAdapter_init else StubModel)
      in case model_load rt m weights' of
           Inl e \<Rightarrow> Inr m
         | Inr m' \<Rightarrow> Inr m')"

text \<open>Sample runtimes for the concrete runs below; the detector is a unit value.\<close>

definition rt_weights_ok :: "unit runtime" where
  "rt_weights_ok =
     \<lparr> import_ultralytics = Inr (Some ''8.0.0''),
       os_path_exists = (\<lambda>p. p = ''/w/best.pt''),
       YOLO = (\<lambda>w. Inr ()),
       model_names = (\<lambda>d. Inr [0 \<mapsto> ''person'']),
       normalize_weights = (\<lambda>w. Inr w),
       stdout_print = (\<lambda>s. None) \<rparr>"

definition rt_corrupt_weights :: "unit runtime" where
  "rt_corrupt_weights =
     \<lparr> import_ultralytics = Inr (Some ''8.0.0''),
       os_path_exists = (\<lambda>p. p = ''/w/best.pt''),
       YOLO = (\<lambda>w. case w of None \<Rightarrow> Inr () | Some p \<Rightarrow> Inl (OtherException ''bad checkpoint'')),
       model_names = (\<lambda>d. Inr Map.empty),
       normalize_weights = (\<lambda>w. Inr w),
       stdout_print = (\<lambda>s. None) \<rparr>"

definition rt_no_library :: "unit runtime" where
  "rt_no_library =
     \<lparr> import_ultralytics = Inl (OtherException ''No module named ultralytics''),
       os_path_exists = (\<lambda>p. False),
       YOLO = (\<lambda>w. Inl (OtherException ''unreachable'')),
       model_names = (\<lambda>d. Inr Map.empty),
       normalize_weights = (\<lambda>w. Inl (OtherException ''no home directory'')),
       stdout_print = (\<lambda>s. Some (OtherException ''stdout closed'')) \<rparr>"

section \<open>app/main.py: the upload handler\<close>

text \<open>
  The files on disk: a map from the path string to the file's bytes.
  Directories are not part of it. Opening a file for writing can fail (the
  path is built from the client's file name); writing to an opened file and
  closing it succeed.
\<close>

type_synonym byte = "8 word"

type_synonym filesystem = "string \<rightharpoonup> byte list"

text \<open>
  What the handler does to the upload stream and to the disk, in order.
  \<open>EvRead n\<close> is one \<open>file.read\<close> that returned n bytes.
\<close>

datatype fs_event =
    EvMkdir string
  | EvOpen string
  | EvRead nat
  | EvWrite string "byte list"
  | EvCloseFile string
  | EvUnlink string
  | EvCloseUpload
  | EvInfer string

text \<open>
  The handler returns a \<open>JSONResponse\<close> (status 200), raises an
  \<open>HTTPException\<close> with a status code and a detail, or lets another
  exception escape, which the framework answers with status 500 and the text
  "Internal Server Error".
\<close>

datatype response =
    HTTPException nat string
  | JSONResponse json
  | InternalServerError py_exception

definition status_code :: "response \<Rightarrow> nat" where
  "status_code r =
     (case r of
        HTTPException st detail \<Rightarrow> st
      | JSONResponse body \<Rightarrow> 200
      | InternalServerError e \<Rightarrow> 500)"

definition response_body :: "response \<Rightarrow> json" where
  "response_body r =
     (case r of
        HTTPException st detail \<Rightarrow> JObj [(''detail'', JStr detail)]
      | JSONResponse body \<Rightarrow> body
      | InternalServerError e \<Rightarrow> JStr ''Internal Server Error'')"

text \<open>The \<open>UploadFile\<close> of one request.\<close>

record upload_file =
  content_type :: "string option"
  filename :: "string option"
  payload :: "byte list"

text \<open>
  The module globals and what the process supplies to one request:
  \<^item> \<open>MAX_UPLOAD_SIZE\<close>, \<open>UPLOAD_DIR\<close>: the globals of lines 20 and 24;
  \<^item> \<open>MODEL\<close>: None, or the \<open>infer\<close> method of the loaded model, which
    returns a result or raises;
  \<^item> \<open>uuid4_hex\<close>: the value of \<open>uuid.uuid4().hex\<close> for this request;
  \<^item> \<open>pil_verify\<close>: None when Pillow cannot be imported, else whether
    \<open>Image.open(path).verify()\<close> accepts a file with these bytes;
  \<^item> \<open>open_error\<close>: the exception \<open>path.open("wb")\<close> raises for a path,
    if it does (OSError for a name longer than the file system allows,
    ValueError for a name with a NUL character).
\<close>

record server =
  MAX_UPLOAD_SIZE :: nat
  UPLOAD_DIR :: string
  MODEL :: "(string \<Rightarrow> py_exception + json) option"
  uuid4_hex :: string
  pil_verify :: "(byte list \<Rightarrow> bool) option"
  open_error :: "string \<Rightarrow> py_exception option"

definition default_MAX_UPLOAD_SIZE :: nat where
  "default_MAX_UPLOAD_SIZE = 5 * 1024 * 1024"

definition ALLOWED_CONTENT_TYPES :: "string set" where
  "ALLOWED_CONTENT_TYPES = {''image/jpeg'', ''image/png'', ''image/webp''}"

definition chunk_size :: nat where
  "chunk_size = 1024 * 1024"

text \<open>\<open>str(e)\<close> of an exception.\<close>

definition exception_str :: "py_exception \<Rightarrow> string" where
  "exception_str e =
     (case e of
        IndexError \<Rightarrow> ''list index out of range''
      | TypeError \<Rightarrow> ''exceptions must derive from BaseException''
      | FileNotFoundError p \<Rightarrow> p
      | OSError m \<Rightarrow> m
      | OtherException m \<Rightarrow> m)"

text \<open>\<open>_secure_filename\<close> (line 68) and the path of lines 77-81.\<close>

definition secure_filename :: "string \<Rightarrow> string" where
  "secure_filename fname = path_name fname"

definition upload_path :: "server \<Rightarrow> upload_file \<Rightarrow> string" where
  "upload_path srv file =
     (let safe_name = secure_filename (case filename file of
                                          None \<Rightarrow> ''upload''
                                        | Some f \<Rightarrow> if f = [] then ''upload'' else f);
          file_id = uuid4_hex srv @ ''_'' @ safe_name
      in path_join (UPLOAD_DIR srv) file_id)"

text \<open>
  \<open>path.unlink()\<close> raises FileNotFoundError on a missing file; lines 96-99
  and 114-117 catch exactly that and go on.
\<close>

definition unlink :: "filesystem \<Rightarrow> string \<Rightarrow> py_exception + filesystem" where
  "unlink fs p = (case fs p of None \<Rightarrow> Inl (FileNotFoundError p) | Some b \<Rightarrow> Inr (fs(p := None)))"

definition unlink_missing_ok :: "filesystem \<Rightarrow> string \<Rightarrow> filesystem" where
  "unlink_missing_ok fs p = (case unlink fs p of Inl e \<Rightarrow> fs | Inr fs' \<Rightarrow> fs')"

text \<open>\<open>f.write(chunk)\<close> on the file opened at \<open>p\<close>.\<close>

definition file_write :: "filesystem \<Rightarrow> string \<Rightarrow> byte list \<Rightarrow> filesystem" where
  "file_write fs p chunk = fs(p \<mapsto> (case fs p of None \<Rightarrow> chunk | Some old \<Rightarrow> old @ chunk))"

text \<open>
  The \<open>while True\<close> loop of lines 88-101 with the end of the \<open>with\<close> block.
  \<open>rest\<close> is what the upload stream still holds, \<open>uploaded\<close> the running
  count. The first component of the result tells whether the 413 was raised.
\<close>

function stream_to_disk ::
  "nat \<Rightarrow> nat \<Rightarrow> string \<Rightarrow> byte list \<Rightarrow> nat \<Rightarrow> filesystem \<Rightarrow> fs_event list
     \<Rightarrow> bool \<times> filesystem \<times> fs_event list" where
  "stream_to_disk limit csize p rest uploaded fs evs =
     (if take csize rest = []
      then (False, fs, evs @ [EvRead 0, EvCloseFile p])
      else if limit < uploaded + length (take csize rest)
      then (True, unlink_missing_ok fs p,
            evs @ [EvRead (length (take csize rest)), EvCloseFile p, EvUnlink p])
      else stream_to_disk limit csize p (drop csize rest) (uploaded + length (take csize rest))
             (file_write fs p (take csize rest))
             (evs @ [EvRead (length (take csize rest)), EvWrite p (take csize rest)]))"
  by pat_completeness auto
termination
  by (relation "measure (\<lambda>(limit, csize, p, rest, uploaded, fs, evs). length rest)") auto

declare stream_to_disk.simps [simp del]

text \<open>
  Lines 104-118: without Pillow the file is trusted; with it, a file that
  cannot be opened or verified is invalid.
\<close>

definition image_valid :: "server \<Rightarrow> filesystem \<Rightarrow> string \<Rightarrow> bool" where
  "image_valid srv fs p =
     (case pil_verify srv of
        None \<Rightarrow> True
      | Some verify \<Rightarrow> (case fs p of None \<Rightarrow> False | Some bytes \<Rightarrow> verify bytes))"

text \<open>Lines 122-130: the response once the file is stored.\<close>

definition respond :: "server \<Rightarrow> string \<Rightarrow> filesystem \<Rightarrow> fs_event list
    \<Rightarrow> response \<times> filesystem \<times> fs_event list" where
  "respond srv p fs evs =
     (case MODEL srv of
        None \<Rightarrow>
          (JSONResponse (JObj [(''message'', JStr ''model not loaded (dry-run)''), (''path'', JStr p)]),
           fs, evs)
      | Some infer \<Rightarrow>
          (case infer p of
             Inr result \<Rightarrow>
               (JSONResponse (JObj [(''result'', result), (''path'', JStr p)]), fs, evs @ [EvInfer p])
           | Inl e \<Rightarrow> (HTTPException 500 (exception_str e), fs, evs @ [EvInfer p])))"

text \<open>
  The handler \<open>predict\<close> of \<open>POST /predict\<close> (lines 70-130): the response,
  the disk afterwards, and the events in order. \<open>path.open("wb")\<close> stands
  inside a \<open>try\<close> that has only a \<open>finally\<close>: when it raises, the upload is
  closed and the exception leaves the handler.
\<close>

definition predict_handler :: "server \<Rightarrow> upload_file \<Rightarrow> filesystem
    \<Rightarrow> response \<times> filesystem \<times> fs_event list" where
  "predict_handler srv file fs =
     (let ctype = lower (case content_type file of None \<Rightarrow> [] | Some t \<Rightarrow> t)
      in if ctype \<notin> ALLOWED_CONTENT_TYPES
         then (HTTPException 400 (''unsupported content type: '' @ ctype), fs, [])
         else
           (let p = upload_path srv file
            in case open_error srv p of
                 Some e \<Rightarrow>
                   (InternalServerError e, fs, [EvMkdir (UPLOAD_DIR srv), EvCloseUpload])
               | None \<Rightarrow>
                   (case stream_to_disk (MAX_UPLOAD_SIZE srv) chunk_size p (payload file) 0
                           (fs(p \<mapsto> [])) [EvMkdir (UPLOAD_DIR srv), EvOpen p] of
                      (True, fs1, evs1) \<Rightarrow>
                        (HTTPException 413 ''file too large'', fs1, evs1 @ [EvCloseUpload])
                    | (False, fs1, evs1) \<Rightarrow>
                        if \<not> image_valid srv fs1 p
                        then (HTTPException 400 ''invalid image file'', unlink_missing_ok fs1 p,
                              evs1 @ [EvUnlink p, EvCloseUpload])
                        else respond srv p fs1 (evs1 @ [EvCloseUpload]))))"

text \<open>The bytes appended to files, and the bytes read from the stream, in a run.\<close>

fun written :: "fs_event list \<Rightarrow> byte list" where
  "written [] = []"
| "written (EvWrite p chunk # es) = chunk @ written es"
| "written (e # es) = written es"

fun bytes_read :: "fs_event list \<Rightarrow> nat" where
  "bytes_read [] = 0"
| "bytes_read (EvRead n # es) = n + bytes_read es"
| "bytes_read (e # es) = bytes_read es"

text \<open>Sample servers and uploads for the concrete runs below.\<close>

definition jpeg_magic :: "byte list \<Rightarrow> bool" where
  "jpeg_magic bytes = (take 2 bytes = [0xFF, 0xD8])"

text \<open>A file system whose names hold at most 255 characters.\<close>

definition name_max_error :: "string \<Rightarrow> py_exception option" where
  "name_max_error p =
     (if 255 < length (path_name p) then Some (OSError ''[Errno 36] File name too long'') else None)"

definition tiny_server :: server where
  "tiny_server =
     \<lparr> MAX_UPLOAD_SIZE = 4,
       UPLOAD_DIR = ''uploads'',
       MODEL = Some (\<lambda>p. Inr (StubModel_infer p)),
       uuid4_hex = ''0f3a'',
       pil_verify = Some jpeg_magic,
       open_error = name_max_error \<rparr>"

definition failing_server :: server where
  "failing_server =
     \<lparr> MAX_UPLOAD_SIZE = 4,
       UPLOAD_DIR = ''uploads'',
       MODEL = Some (\<lambda>p. Inl (OtherException ''CUDA out of memory'')),
       uuid4_hex = ''0f3a'',
       pil_verify = Some jpeg_magic,
       open_error = name_max_error \<rparr>"

definition small_jpeg :: upload_file where
  "small_jpeg =
     \<lparr> content_type = Some ''image/JPEG'', filename = Some ''../cat.jpg'',
       payload = [0xFF, 0xD8, 0x01] \<rparr>"

definition big_jpeg :: upload_file where
  "big_jpeg =
     \<lparr> content_type = Some ''image/jpeg'', filename = Some ''big.jpg'',
       payload = [0xFF, 0xD8, 0, 0, 0xD9] \<rparr>"

definition text_upload :: upload_file where
  "text_upload =
     \<lparr> content_type = Some ''text/plain'', filename = Some ''notes.txt'',
       payload = [0x68, 0x69] \<rparr>"

definition long_name_big :: upload_file where
  "long_name_big =
     \<lparr> content_type = Some ''image/jpeg'', filename = Some (replicate 300 CHR ''a''),
       payload = [0xFF, 0xD8, 0, 0, 0xD9] \<rparr>"

definition long_name_small :: upload_file where
  "long_name_small =
     \<lparr> content_type = Some ''image/jpeg'', filename = Some (replicate 300 CHR ''a''),
       payload = [0xFF, 0xD8, 0x01] \<rparr>"

section \<open>Properties of the stub model and of format_detections\<close>

text \<open>
  C9: for every input path, the stub model's \<open>infer\<close> returns a dict whose
  \<open>detections\<close> entry is the empty list, whose \<open>model.mode\<close> entry is
  "dry-run", and whose keys are image, width, height, detections, model.
\<close>

theorem StubModel_infer_schema:
  "dict_get (StubModel_infer image_path) ''detections'' = Some (JList []) \<and>
   Option.bind (dict_get (StubModel_infer image_path) ''model'') (\<lambda>m. dict_get m ''mode'')
     = Some (JStr ''dry-run'') \<and>
   dict_keys (StubModel_infer image_path) = [''image'', ''width'', ''height'', ''detections'', ''model'']"
  by (simp add: StubModel_infer_def dict_get_def dict_keys_def)

lemma take4_nth:
  assumes "4 \<le> length b"
  shows "take 4 b = [b ! 0, b ! 1, b ! 2, b ! 3]"
proof -
  obtain x0 x1 x2 x3 r where "b = x0 # x1 # x2 # x3 # r"
    using assms by (cases b; cases "tl b"; cases "tl (tl b)"; cases "tl (tl (tl b))") auto
  then show ?thesis by simp
qed

lemma detection_dict_ok:
  "4 \<le> length b \<Longrightarrow> detection_dict nm b s c = Inr (detection_json nm b s c)"
  by (simp add: detection_dict_def detection_json_def take4_nth)

lemma format_loop_ok:
  "(\<forall>t \<in> set ts. 4 \<le> length (fst t)) \<Longrightarrow>
   format_loop nm ts out = Inr (out @ map (\<lambda>(b, s, c). detection_json nm b s c) ts)"
proof (induction ts arbitrary: out)
  case Nil
  then show ?case by simp
next
  case (Cons t ts)
  obtain b s c where t: "t = (b, s, c)" by (cases t) auto
  from Cons.prems t have "4 \<le> length b" by simp
  then show ?case using Cons t by (simp add: detection_dict_ok)
qed

text \<open>
  C8, as stated, fails on a box with fewer than four coordinates: line 18
  reads \<open>b[0]\<close> .. \<open>b[3]\<close> and raises IndexError, so no list is returned.
\<close>

theorem format_detections_short_box:
  "format_detections [[1]] [0.5] [0] None = Inl IndexError"
  by (simp add: format_detections_def detection_dict_def)

text \<open>
  C8 (amended): for every triple of lists (boxes, scores, classes), possibly
  of mismatched lengths, in which each of the first
  n = min(len(boxes), len(scores), len(classes)) boxes has at least four
  coordinates, format_detections returns a list of exactly n detections in the
  input order; detection i holds the first four coordinates of box i, score i
  and class i, and its label is the name-table entry of class i when there is
  one and the decimal string of the class index otherwise.
\<close>

theorem format_detections_zip:
  assumes "n = min (length boxes) (min (length scores) (length classes))"
    and "\<forall>i < n. 4 \<le> length (boxes ! i)"
  shows "\<exists>ds. format_detections boxes scores classes nm = Inr ds \<and> length ds = n \<and>
           (\<forall>i < n. dict_get (ds ! i) ''box'' = Some (JList (map JNum (take 4 (boxes ! i)))) \<and>
                     dict_get (ds ! i) ''score'' = Some (JNum (scores ! i)) \<and>
                     dict_get (ds ! i) ''class_id'' = Some (JInt (classes ! i)) \<and>
                     dict_get (ds ! i) ''label'' =
                       Some (JStr (case (case nm of None \<Rightarrow> Map.empty | Some m \<Rightarrow> m) (classes ! i) of
                                     Some l \<Rightarrow> l | None \<Rightarrow> str_int (classes ! i))))"
proof -
  let ?nm = "case nm of None \<Rightarrow> Map.empty | Some m \<Rightarrow> m"
  let ?ts = "zip boxes (zip scores classes)"
  have len: "length ?ts = n" using assms(1) by simp
  have "\<forall>t \<in> set ?ts. 4 \<le> length (fst t)"
  proof
    fix t assume "t \<in> set ?ts"
    then obtain i where i: "i < length ?ts" "t = ?ts ! i" by (auto simp: in_set_conv_nth)
    then have "fst t = boxes ! i" by simp
    with i len assms(2) show "4 \<le> length (fst t)" by auto
  qed
  then have eq: "format_detections boxes scores classes nm =
      Inr (map (\<lambda>(b, s, c). detection_json ?nm b s c) ?ts)"
    by (simp add: format_detections_def format_loop_ok)
  have "\<forall>i < n. map (\<lambda>(b, s, c). detection_json ?nm b s c) ?ts ! i =
      detection_json ?nm (boxes ! i) (scores ! i) (classes ! i)"
    using len by auto
  then show ?thesis using eq len
    by (simp add: detection_json_def dict_get_def label_of_def)
qed

theorem format_detections_zip_witness:
  "(1::nat) = min (length [[1, 2, 3, 4], [5, 6, 7, 8, 9::real]])
                  (min (length [0.5::real]) (length [7, 2::int])) \<and>
   (\<exists>ds. format_detections [[1, 2, 3, 4], [5, 6, 7, 8, 9]] [0.5] [7, 2] (Some [7 \<mapsto> ''cat'']) = Inr ds \<and>
          length ds = 1 \<and>
          dict_get (ds ! 0) ''box'' = Some (JList [JNum 1, JNum 2, JNum 3, JNum 4]) \<and>
          dict_get (ds ! 0) ''label'' = Some (JStr ''cat''))"
proof -
  have h1: "(1::nat) = min (length [[1, 2, 3, 4], [5, 6, 7, 8, 9::real]])
                           (min (length [0.5::real]) (length [7, 2::int]))"
    by simp
  have h2: "\<forall>i < (1::nat). 4 \<le> length ([[1, 2, 3, 4], [5, 6, 7, 8, 9::real]] ! i)"
    by simp
  show ?thesis
    using h1 format_detections_zip [OF h1 h2, of "Some [7 \<mapsto> ''cat'']"]
    by auto
qed

section \<open>Properties of the retrying client\<close>




lemma asyncio_sleep_ok:
  "d \<le> FLOAT_MAX \<Longrightarrow> asyncio_sleep d = Slept (max 0 d)"
  by (simp add: asyncio_sleep_def max_def)

text \<open>
  When every attempt from \<open>attempt\<close> on fails and every sleep between them
  returns, the loop runs to the last attempt and raises what that attempt
  raised; the waits are those of the sleeps before attempts
  \<open>attempt + 1\<close> .. \<open>retries\<close>.
\<close>

lemma attempt_loop_exhaust:
  assumes "\<And>k. attempt \<le> k \<Longrightarrow> k \<le> retries c \<Longrightarrow> attempt_once c env k = Inl (f k)"
    and "attempt \<le> retries c"
    and "\<And>k. attempt \<le> k \<Longrightarrow> k < retries c \<Longrightarrow> \<exists>d. get_backoff c k = Inr d \<and> sleep d = Slept (w k)"
  shows "attempt_loop sleep c env attempt last_exc sleeps =
           (Some (Inl (f (retries c))), retries c, sleeps @ map w [attempt..<retries c])"
  using assms
proof (induction "retries c - attempt" arbitrary: attempt last_exc sleeps)
  case 0
  then have eq: "attempt = retries c" by simp
  have "attempt_once c env attempt = Inl (f attempt)" using 0 by simp
  then show ?case using eq
    by (subst attempt_loop.simps) (simp add: raise_last_def)
next
  case (Suc n)
  then have lt: "attempt < retries c" by simp
  have once: "attempt_once c env attempt = Inl (f attempt)" using Suc.prems lt by simp
  obtain d where d: "get_backoff c attempt = Inr d" "sleep d = Slept (w attempt)"
    using Suc.prems(3) [of attempt] lt by auto
  have step: "attempt_loop sleep c env (attempt + 1) (Some (f attempt)) (sleeps @ [w attempt]) =
      (Some (Inl (f (retries c))), retries c,
       (sleeps @ [w attempt]) @ map w [attempt + 1..<retries c])"
  proof (rule Suc.hyps(1))
    show "n = retries c - (attempt + 1)" using Suc.hyps(2) by simp
    show "attempt + 1 \<le> retries c" using lt by simp
    show "attempt_once c env k = Inl (f k)" if "attempt + 1 \<le> k" "k \<le> retries c" for k
      using that Suc.prems(1) by simp
    show "\<exists>d. get_backoff c k = Inr d \<and> sleep d = Slept (w k)"
      if "attempt + 1 \<le> k" "k < retries c" for k
      using that Suc.prems(3) by simp
  qed
  have upt: "[attempt..<retries c] = attempt # [attempt + 1..<retries c]"
    using lt by (simp add: upt_conv_Cons)
  show ?case using lt once d step upt
    by (subst attempt_loop.simps) simp
qed




lemma FLOAT_MAX_large: "1 \<le> FLOAT_MAX"
proof -
  have "(2::real) ^ 971 * 2 \<le> 2 ^ 971 * 2 ^ 53" by (intro mult_left_mono) simp_all
  then have "(2::real) ^ 971 + 2 ^ 971 \<le> 2 ^ 1024" by (simp add: power_add [symmetric])
  moreover have "(1::real) \<le> 2 ^ 971" by simp
  ultimately show ?thesis by (simp add: FLOAT_MAX_def)
qed

text \<open>
  C1: the claim is that a response with an error status outside the retry
  set ends the call after that attempt, with no wait. Run on a server that
  answers 404 to every request, a client with three attempts and the default
  retry set posts three times and sleeps twice (0.5 s, 1 s) before it raises:
  the HTTPStatusError of \<open>raise_for_status\<close> is caught by the same
  \<open>except\<close> clause as the retryable failures. Both variants do so.
\<close>

theorem nonretryable_status_is_retried:
  "predict (YoloHTTPClient 3 0.5 None) always_404 ''img.jpg'' =
     (Some (Inl (HTTPStatusError ''404 Error'' 404 (JObj [(''detail'', JStr ''Not Found'')]))), 3, [0.5, 1]) \<and>
   predict_async (YoloHTTPClient 3 0.5 None) always_404 ''img.jpg'' =
     (Some (Inl (HTTPStatusError ''404 Error'' 404 (JObj [(''detail'', JStr ''Not Found'')]))), 3, [0.5, 1])"
proof
  show "predict (YoloHTTPClient 3 0.5 None) always_404 ''img.jpg'' =
     (Some (Inl (HTTPStatusError ''404 Error'' 404 (JObj [(''detail'', JStr ''Not Found'')]))), 3, [0.5, 1])"
    by code_simp
next
  let ?c = "YoloHTTPClient 3 0.5 None"
  let ?e = "HTTPStatusError ''404 Error'' 404 (JObj [(''detail'', JStr ''Not Found'')])"
  have r: "retries ?c = 3" by (simp add: YoloHTTPClient_def)
  have msg: "str_int 404 @ '' Error'' = ''404 Error''" by code_simp
  have "attempt_loop asyncio_sleep ?c always_404 1 None [] =
      (Some (Inl ?e), retries ?c, [] @ map (\<lambda>k. 0.5 * 2 ^ (k - 1)) [1..<retries ?c])"
  proof (rule attempt_loop_exhaust [where f = "\<lambda>k. ?e"])
    show "1 \<le> retries ?c" using r by simp
    show "attempt_once ?c always_404 k = Inl ?e" for k
      using msg by (simp add: attempt_once_def always_404_def YoloHTTPClient_def)
    show "\<exists>d. get_backoff ?c k = Inr d \<and> asyncio_sleep d = Slept (0.5 * 2 ^ (k - 1))"
      if "1 \<le> k" "k < retries ?c" for k
    proof -
      have k: "k = 1 \<or> k = 2" using that r by arith
      have gb: "get_backoff ?c k = Inr (0.5 * 2 ^ (k - 1))"
        using k by (auto simp: get_backoff_def YoloHTTPClient_def)
      have le: "(0.5::real) * 2 ^ (k - 1) \<le> FLOAT_MAX"
        using k FLOAT_MAX_large by auto
      have pos: "(0::real) \<le> 0.5 * 2 ^ (k - 1)" by simp
      have "asyncio_sleep (0.5 * 2 ^ (k - 1)) = Slept (0.5 * 2 ^ (k - 1))"
        using asyncio_sleep_ok [OF le] pos by (simp add: max_def)
      with gb show ?thesis by blast
    qed
  qed
  moreover have "[Suc 0..<3] = [Suc 0, 2]" by code_simp
  ultimately show "predict_async ?c always_404 ''img.jpg'' = (Some (Inl ?e), 3, [0.5, 1])"
    by (simp add: predict_async_def always_404_def YoloHTTPClient_def)
qed







section \<open>Properties of the adapter and of the model factory\<close>

lemma mode_read_names: "mode (read_names rt a) = mode a"
  by (simp add: read_names_def)

lemma mode_instantiate_ok:
  "w \<noteq> [] \<Longrightarrow> os_path_exists rt w \<Longrightarrow> YOLO rt (Some w) = Inr d \<Longrightarrow>
   mode (instantiate rt a (Some w)) = ''inference''"
  by (simp add: instantiate_def)

lemma mode_instantiate_raises:
  "w \<noteq> [] \<Longrightarrow> os_path_exists rt w \<Longrightarrow> YOLO rt (Some w) = Inl e \<Longrightarrow>
   mode (instantiate rt a (Some w)) = ''no-weights''"
  by (simp add: instantiate_def)

lemma mode_instantiate_none:
  "mode (instantiate rt a None) = ''no-weights''"
  by (cases "YOLO rt None") (simp_all add: instantiate_def)

lemma mode_instantiate_missing:
  "w = [] \<or> \<not> os_path_exists rt w \<Longrightarrow> mode (instantiate rt a (Some w)) = ''no-weights''"
  by (cases "YOLO rt None") (auto simp: instantiate_def)

text \<open>
  C2, as stated, fails in its third case: when the library is importable,
  the weights file exists and the constructor raises on it, line 44 sets the
  mode to "no-weights", not to "dry-run".
\<close>

theorem load_failure_mode:
  "import_ultralytics rt_corrupt_weights = Inr (Some ''8.0.0'') \<and>
   os_path_exists rt_corrupt_weights ''/w/best.pt'' \<and>
   YOLO rt_corrupt_weights (Some ''/w/best.pt'') = Inl (OtherException ''bad checkpoint'') \<and>
   mode (YolovXAdapter_load rt_corrupt_weights YolovXAdapter_init (Some ''/w/best.pt'')) \<noteq> ''dry-run''"
  by (simp add: rt_corrupt_weights_def YolovXAdapter_load_def instantiate_def read_names_def YolovXAdapter_init_def)

text \<open>
  C2 (amended): for every invocation of the adapter's \<open>load(weights_path)\<close>
  with the detector library importable: if the weights file exists and the
  detector is constructed from it, the mode is "inference" afterwards; if the
  path is not given or the file is missing, the mode is "no-weights"; and if
  the construction from the existing weights raises, the mode is "no-weights"
  as well. The mode is "dry-run" when the library cannot be imported.
\<close>

theorem load_mode:
  "(import_ultralytics rt = Inr ver \<and> weights_path = Some w \<and> w \<noteq> [] \<and> os_path_exists rt w \<and>
    YOLO rt (Some w) = Inr d
      \<longrightarrow> mode (YolovXAdapter_load rt a weights_path) = ''inference'') \<and>
   (import_ultralytics rt = Inr ver \<and>
    (weights_path = None \<or> weights_path = Some w \<and> (w = [] \<or> \<not> os_path_exists rt w))
      \<longrightarrow> mode (YolovXAdapter_load rt a weights_path) = ''no-weights'') \<and>
   (import_ultralytics rt = Inr ver \<and> weights_path = Some w \<and> w \<noteq> [] \<and> os_path_exists rt w \<and>
    YOLO rt (Some w) = Inl e
      \<longrightarrow> mode (YolovXAdapter_load rt a weights_path) = ''no-weights'') \<and>
   (import_ultralytics rt = Inl e
      \<longrightarrow> mode (YolovXAdapter_load rt a weights_path) = ''dry-run'')"
proof (intro conjI impI)
  assume "import_ultralytics rt = Inr ver \<and> weights_path = Some w \<and> w \<noteq> [] \<and> os_path_exists rt w \<and>
    YOLO rt (Some w) = Inr d"
  then show "mode (YolovXAdapter_load rt a weights_path) = ''inference''"
    by (simp add: YolovXAdapter_load_def mode_read_names mode_instantiate_ok)
next
  assume h: "import_ultralytics rt = Inr ver \<and>
    (weights_path = None \<or> weights_path = Some w \<and> (w = [] \<or> \<not> os_path_exists rt w))"
  then have "mode (instantiate rt (a\<lparr>version := ver\<rparr>) weights_path) = ''no-weights''"
    using mode_instantiate_none [of rt "a\<lparr>version := ver\<rparr>"]
      mode_instantiate_missing [of w rt "a\<lparr>version := ver\<rparr>"] by auto
  then show "mode (YolovXAdapter_load rt a weights_path) = ''no-weights''"
    using h by (simp add: YolovXAdapter_load_def mode_read_names)
next
  assume "import_ultralytics rt = Inr ver \<and> weights_path = Some w \<and> w \<noteq> [] \<and> os_path_exists rt w \<and>
    YOLO rt (Some w) = Inl e"
  then show "mode (YolovXAdapter_load rt a weights_path) = ''no-weights''"
    by (simp add: YolovXAdapter_load_def mode_read_names mode_instantiate_raises)
next
  assume "import_ultralytics rt = Inl e"
  then show "mode (YolovXAdapter_load rt a weights_path) = ''dry-run''"
    by (simp add: YolovXAdapter_load_def)
qed

theorem load_mode_witness:
  "import_ultralytics rt_weights_ok = Inr (Some ''8.0.0'') \<and>
   os_path_exists rt_weights_ok ''/w/best.pt'' \<and>
   \<not> os_path_exists rt_weights_ok ''/w/none.pt'' \<and>
   YOLO rt_weights_ok (Some ''/w/best.pt'') = Inr () \<and>
   mode (YolovXAdapter_load rt_weights_ok YolovXAdapter_init (Some ''/w/best.pt'')) = ''inference'' \<and>
   mode (YolovXAdapter_load rt_weights_ok YolovXAdapter_init (Some ''/w/none.pt'')) = ''no-weights'' \<and>
   YOLO rt_corrupt_weights (Some ''/w/best.pt'') = Inl (OtherException ''bad checkpoint'') \<and>
   mode (YolovXAdapter_load rt_corrupt_weights YolovXAdapter_init (Some ''/w/best.pt'')) = ''no-weights'' \<and>
   import_ultralytics rt_no_library = Inl (OtherException ''No module named ultralytics'') \<and>
   mode (YolovXAdapter_load rt_no_library YolovXAdapter_init (Some ''/w/best.pt'')) = ''dry-run''"
proof -
  have a: "import_ultralytics rt_weights_ok = Inr (Some ''8.0.0'') \<and>
      Some ''/w/best.pt'' = Some ''/w/best.pt'' \<and> ''/w/best.pt'' \<noteq> [] \<and>
      os_path_exists rt_weights_ok ''/w/best.pt'' \<and> YOLO rt_weights_ok (Some ''/w/best.pt'') = Inr ()"
    by (simp add: rt_weights_ok_def)
  have b: "import_ultralytics rt_weights_ok = Inr (Some ''8.0.0'') \<and>
      (Some ''/w/none.pt'' = None \<or> Some ''/w/none.pt'' = Some ''/w/none.pt'' \<and>
         (''/w/none.pt'' = [] \<or> \<not> os_path_exists rt_weights_ok ''/w/none.pt''))"
    by (simp add: rt_weights_ok_def)
  have c: "import_ultralytics rt_corrupt_weights = Inr (Some ''8.0.0'') \<and>
      Some ''/w/best.pt'' = Some ''/w/best.pt'' \<and> ''/w/best.pt'' \<noteq> [] \<and>
      os_path_exists rt_corrupt_weights ''/w/best.pt'' \<and>
      YOLO rt_corrupt_weights (Some ''/w/best.pt'') = Inl (OtherException ''bad checkpoint'')"
    by (simp add: rt_corrupt_weights_def)
  have d: "import_ultralytics rt_no_library = Inl (OtherException ''No module named ultralytics'')"
    by (simp add: rt_no_library_def)
  have nx: "\<not> os_path_exists rt_weights_ok ''/w/none.pt''"
    by (simp add: rt_weights_ok_def)
  have ra: "mode (YolovXAdapter_load rt_weights_ok YolovXAdapter_init (Some ''/w/best.pt'')) = ''inference''"
    by (rule mp [OF load_mode [THEN conjunct1] a])
  have rb: "mode (YolovXAdapter_load rt_weights_ok YolovXAdapter_init (Some ''/w/none.pt'')) = ''no-weights''"
    by (rule mp [OF load_mode [THEN conjunct2, THEN conjunct1] b])
  have rc: "mode (YolovXAdapter_load rt_corrupt_weights YolovXAdapter_init (Some ''/w/best.pt'')) = ''no-weights''"
    by (rule mp [OF load_mode [THEN conjunct2, THEN conjunct2, THEN conjunct1] c])
  have rd: "mode (YolovXAdapter_load rt_no_library YolovXAdapter_init (Some ''/w/best.pt'')) = ''dry-run''"
    by (rule mp [OF load_mode [THEN conjunct2, THEN conjunct2, THEN conjunct2] d])
  show ?thesis using a c d nx ra rb rc rd by simp
qed

lemma startswith_append: "startswith s (p @ q) \<Longrightarrow> startswith s p"
proof -
  assume a: "startswith s (p @ q)"
  then have "take (length p + length q) s = p @ q" by (simp add: startswith_def)
  then have "take (length p) (take (length p + length q) s) = take (length p) (p @ q)" by simp
  then show ?thesis by (simp add: startswith_def min_def)
qed

lemma str_contains_append: "str_contains (p @ q) s \<Longrightarrow> str_contains p s"
proof (induction s)
  case Nil
  then show ?case by simp
next
  case (Cons c cs)
  then show ?case using startswith_append [of "c # cs" p q] by auto
qed

lemma choose_adapter_stub:
  assumes "\<not> startswith s ''yolo''" and "\<not> str_contains ''yolov'' s"
  shows "choose_adapter s = ''stub''"
proof -
  have "\<not> startswith s ''yolov''"
    using assms(1) startswith_append [of s "''yolo''" "''v''"] by auto
  moreover have "\<not> str_contains ''yolovx'' s"
    using assms(2) str_contains_append [of "''yolov''" "''x''" s] by auto
  moreover have "s \<noteq> ''yolovx''" "s \<noteq> ''yolox''"
    using assms(1) by (auto simp: startswith_def)
  ultimately show ?thesis using assms by (simp add: choose_adapter_def)
qed

lemma model_load_stub_cases:
  "model_load rt StubModel w = Inr StubModel \<or> (\<exists>e. model_load rt StubModel w = Inl e)"
  by (simp add: model_load_def StubModel_load_def split: option.splits)

text \<open>
  C10: for every adapter string and weights argument, and whatever the
  library calls raise, \<open>get_model\<close> returns a model object and raises
  nothing: the weights normalisation and \<open>load\<close> are both inside
  \<open>try .. except Exception\<close>. A name that, lowercased, neither starts with
  "yolo" nor contains "yolov" yields the stub model.
\<close>

theorem get_model_total:
  "(\<exists>m. get_model rt adapter weights = Inr m) \<and>
   (\<not> startswith (normalize_adapter adapter) ''yolo'' \<and>
    \<not> str_contains ''yolov'' (normalize_adapter adapter)
      \<longrightarrow> get_model rt adapter weights = Inr StubModel)"
proof
  show "\<exists>m. get_model rt adapter weights = Inr m"
    by (simp add: get_model_def Let_def split: sum.splits)
next
  show "\<not> startswith (normalize_adapter adapter) ''yolo'' \<and>
        \<not> str_contains ''yolov'' (normalize_adapter adapter)
          \<longrightarrow> get_model rt adapter weights = Inr StubModel"
  proof
    assume a: "\<not> startswith (normalize_adapter adapter) ''yolo'' \<and>
        \<not> str_contains ''yolov'' (normalize_adapter adapter)"
    then have ch: "choose_adapter (normalize_adapter adapter) = ''stub''"
      by (simp add: choose_adapter_stub)
    show "get_model rt adapter weights = Inr StubModel"
      using ch model_load_stub_cases [of rt "normalized_weights rt weights"]
      by (auto simp: get_model_def Let_def split: sum.splits)
  qed
qed

theorem get_model_total_witness:
  "\<not> startswith (normalize_adapter (Some ''ResNet'')) ''yolo'' \<and>
   \<not> str_contains ''yolov'' (normalize_adapter (Some ''ResNet'')) \<and>
   get_model rt_no_library (Some ''ResNet'') (Some ''best.pt'') = Inr StubModel"
proof -
  have h: "\<not> startswith (normalize_adapter (Some ''ResNet'')) ''yolo'' \<and>
   \<not> str_contains ''yolov'' (normalize_adapter (Some ''ResNet''))"
    by code_simp
  show ?thesis
    using h get_model_total [of rt_no_library "Some ''ResNet''" "Some ''best.pt''"] by blast
qed

section \<open>Properties of the upload handler\<close>

lemma default_limit_bytes: "default_MAX_UPLOAD_SIZE = 5242880 \<and> chunk_size = 1048576"
  by (simp add: default_MAX_UPLOAD_SIZE_def chunk_size_def)

lemma written_append: "written (xs @ ys) = written xs @ written ys"
  by (induction xs rule: written.induct) simp_all

lemma take_Nil_pos: "0 < n \<Longrightarrow> take n xs = [] \<Longrightarrow> xs = []"
  by (cases xs) (auto simp: take_Cons')

lemma unlink_existing: "fs p = Some b \<Longrightarrow> unlink_missing_ok fs p = fs(p := None)"
  by (simp add: unlink_missing_ok_def unlink_def)

lemma unlink_missing: "fs p = None \<Longrightarrow> unlink_missing_ok fs p = fs"
  by (simp add: unlink_missing_ok_def unlink_def)

lemma file_write_existing: "fs p = Some old \<Longrightarrow> file_write fs p chunk = fs(p \<mapsto> old @ chunk)"
  by (simp add: file_write_def)

text \<open>
  A stream that fits under the limit is copied to the file whole; the loop
  ends at the empty read.
\<close>

lemma stream_within_limit:
  assumes "0 < csize" and "uploaded + length rest \<le> limit" and "fs p = Some content"
  shows "\<exists>evs'. stream_to_disk limit csize p rest uploaded fs evs =
           (False, fs(p \<mapsto> content @ rest), evs')"
  using assms
proof (induction limit csize p rest uploaded fs evs arbitrary: content rule: stream_to_disk.induct)
  case (1 limit csize p rest uploaded fs evs)
  show ?case
  proof (cases "take csize rest = []")
    case True
    then have "rest = []" using "1.prems"(1) by (simp add: take_Nil_pos)
    moreover have "fs(p \<mapsto> content) = fs" using "1.prems"(3) by (simp add: map_upd_triv)
    ultimately show ?thesis using True
      by (subst stream_to_disk.simps) simp
  next
    case False
    have le: "length (take csize rest) \<le> length rest" by simp
    then have nb: "\<not> limit < uploaded + length (take csize rest)"
      using "1.prems"(2) by linarith
    have fw: "file_write fs p (take csize rest) p = Some (content @ take csize rest)"
      using "1.prems"(3) by (simp add: file_write_def)
    have bound: "uploaded + length (take csize rest) + length (drop csize rest) \<le> limit"
      using "1.prems"(2) by simp
    obtain evs' where
      "stream_to_disk limit csize p (drop csize rest) (uploaded + length (take csize rest))
         (file_write fs p (take csize rest))
         (evs @ [EvRead (length (take csize rest)), EvWrite p (take csize rest)]) =
       (False, (file_write fs p (take csize rest))(p \<mapsto> (content @ take csize rest) @ drop csize rest), evs')"
      using "1.IH" [OF False nb "1.prems"(1) bound fw] by blast
    moreover have "(file_write fs p (take csize rest))(p \<mapsto> (content @ take csize rest) @ drop csize rest)
        = fs(p \<mapsto> content @ rest)"
      by (simp add: file_write_def)
    ultimately show ?thesis using False nb
      by (subst stream_to_disk.simps) simp
  qed
qed

text \<open>
  A stream that does not fit ends in the 413 branch: the file is unlinked,
  and what was written before is a prefix of the stream no longer than the
  limit.
\<close>

lemma stream_over_limit:
  assumes "0 < csize" and "limit < uploaded + length rest" and "uploaded \<le> limit"
    and "fs p = Some content"
  shows "\<exists>w evs'. stream_to_disk limit csize p rest uploaded fs evs = (True, fs(p := None), evs') \<and>
           written evs' = written evs @ w \<and> prefix w rest \<and> uploaded + length w \<le> limit"
  using assms
proof (induction limit csize p rest uploaded fs evs arbitrary: content rule: stream_to_disk.induct)
  case (1 limit csize p rest uploaded fs evs)
  have ne: "take csize rest \<noteq> []"
  proof
    assume "take csize rest = []"
    then have "rest = []" using "1.prems"(1) by (simp add: take_Nil_pos)
    then show False using "1.prems"(2,3) by simp
  qed
  show ?case
  proof (cases "limit < uploaded + length (take csize rest)")
    case True
    have "stream_to_disk limit csize p rest uploaded fs evs =
        (True, fs(p := None), evs @ [EvRead (length (take csize rest)), EvCloseFile p, EvUnlink p])"
      using ne True "1.prems"(4) by (subst stream_to_disk.simps) (simp add: unlink_existing)
    moreover have "written (evs @ [EvRead (length (take csize rest)), EvCloseFile p, EvUnlink p])
        = written evs @ []"
      by (simp add: written_append)
    ultimately show ?thesis using "1.prems"(3) by (metis add.right_neutral list.size(3) prefix_bot.bot_least)
  next
    case False
    let ?chunk = "take csize rest"
    have fw: "file_write fs p ?chunk p = Some (content @ ?chunk)"
      using "1.prems"(4) by (simp add: file_write_def)
    have big: "limit < uploaded + length ?chunk + length (drop csize rest)"
      using "1.prems"(2) by simp
    have le: "uploaded + length ?chunk \<le> limit" using False by simp
    obtain w evs' where r:
      "stream_to_disk limit csize p (drop csize rest) (uploaded + length ?chunk)
         (file_write fs p ?chunk) (evs @ [EvRead (length ?chunk), EvWrite p ?chunk]) =
       (True, (file_write fs p ?chunk)(p := None), evs')"
      and w: "written evs' = written (evs @ [EvRead (length ?chunk), EvWrite p ?chunk]) @ w"
      and pw: "prefix w (drop csize rest)"
      and lw: "uploaded + length ?chunk + length w \<le> limit"
      using "1.IH" [OF ne False "1.prems"(1) big le fw] by blast
    have fs_eq: "(file_write fs p ?chunk)(p := None) = fs(p := None)"
      by (simp add: file_write_def)
    have res: "stream_to_disk limit csize p rest uploaded fs evs = (True, fs(p := None), evs')"
      using ne False r fs_eq by (subst stream_to_disk.simps) simp
    have w2: "written evs' = written evs @ (?chunk @ w)"
      using w by (simp add: written_append)
    obtain z where "drop csize rest = w @ z" using pw by (auto simp: prefix_def)
    then have "rest = (?chunk @ w) @ z"
      by (metis append_take_drop_id append.assoc)
    then have p2: "prefix (?chunk @ w) rest" by (metis prefixI)
    have l2: "uploaded + length (?chunk @ w) \<le> limit" using lw by simp
    show ?thesis using res w2 p2 l2 by blast
  qed
qed


lemma chunk_size_pos: "0 < chunk_size"
  by (simp add: chunk_size_def)

text \<open>
  C6: for every upload whose content type, lowercased, is not one of
  image/jpeg, image/png, image/webp, the handler answers 400 having read
  nothing from the body and touched nothing on disk: the event list is empty
  and the file system is the one before the request.
\<close>

theorem unsupported_content_type:
  assumes "lower (case content_type file of None \<Rightarrow> [] | Some t \<Rightarrow> t) \<notin> ALLOWED_CONTENT_TYPES"
  shows "status_code (fst (predict_handler srv file fs)) = 400 \<and>
         fst (snd (predict_handler srv file fs)) = fs \<and>
         snd (snd (predict_handler srv file fs)) = [] \<and>
         bytes_read (snd (snd (predict_handler srv file fs))) = 0"
  using assms by (simp add: predict_handler_def status_code_def)

theorem unsupported_content_type_witness:
  "lower (case content_type text_upload of None \<Rightarrow> [] | Some t \<Rightarrow> t) \<notin> ALLOWED_CONTENT_TYPES \<and>
   status_code (fst (predict_handler tiny_server text_upload Map.empty)) = 400 \<and>
   fst (snd (predict_handler tiny_server text_upload Map.empty)) = Map.empty \<and>
   snd (snd (predict_handler tiny_server text_upload Map.empty)) = [] \<and>
   bytes_read (snd (snd (predict_handler tiny_server text_upload Map.empty))) = 0"
proof -
  have h: "lower (case content_type text_upload of None \<Rightarrow> [] | Some t \<Rightarrow> t) \<notin> ALLOWED_CONTENT_TYPES"
    by code_simp
  show ?thesis
    using h unsupported_content_type [OF h, of tiny_server Map.empty] by simp
qed

text \<open>
  When the upload's file cannot be opened, the exception of
  \<open>path.open("wb")\<close> leaves the handler: nothing is read or written, the
  upload is closed, and the answer is 500.
\<close>

lemma handler_open_fails:
  assumes "lower (case content_type file of None \<Rightarrow> [] | Some t \<Rightarrow> t) \<in> ALLOWED_CONTENT_TYPES"
    and "open_error srv (upload_path srv file) = Some e"
  shows "predict_handler srv file fs =
           (InternalServerError e, fs, [EvMkdir (UPLOAD_DIR srv), EvCloseUpload])"
  using assms by (simp add: predict_handler_def Let_def)

text \<open>
  C3, as stated, fails for an upload whose file cannot be opened: with a
  file name of 300 characters, an allowed content type and a payload over
  the ceiling, \<open>path.open("wb")\<close> raises OSError before the first read, and
  the answer is 500, not 413.
\<close>

theorem long_name_is_500:
  "lower (case content_type long_name_big of None \<Rightarrow> [] | Some t \<Rightarrow> t) \<in> ALLOWED_CONTENT_TYPES \<and>
   MAX_UPLOAD_SIZE tiny_server < length (payload long_name_big) \<and>
   status_code (fst (predict_handler tiny_server long_name_big Map.empty)) = 500"
proof -
  have h1: "lower (case content_type long_name_big of None \<Rightarrow> [] | Some t \<Rightarrow> t) \<in> ALLOWED_CONTENT_TYPES"
    by code_simp
  have h2: "MAX_UPLOAD_SIZE tiny_server < length (payload long_name_big)"
    by (simp add: tiny_server_def long_name_big_def)
  have h3: "open_error tiny_server (upload_path tiny_server long_name_big) =
      Some (OSError ''[Errno 36] File name too long'')"
    by code_simp
  have "status_code (fst (predict_handler tiny_server long_name_big Map.empty)) = 500"
    using handler_open_fails [OF h1 h3, of Map.empty] by (simp add: status_code_def)
  then show ?thesis using h1 h2 by simp
qed

text \<open>
  C3 (amended): for every upload with an allowed content type whose file can
  be opened for writing under the upload directory and whose byte count
  exceeds \<open>MAX_UPLOAD_SIZE\<close>, the handler answers 413 and the upload's file
  does not exist afterwards (the disk is the one before the request without
  that path); the bytes written during the request are a prefix of the
  payload of at most \<open>MAX_UPLOAD_SIZE\<close> bytes, so the chunk that crossed the
  limit was never written; and the tolerant unlink, run again on the result,
  changes nothing and raises nothing.
\<close>

theorem payload_too_large:
  assumes "lower (case content_type file of None \<Rightarrow> [] | Some t \<Rightarrow> t) \<in> ALLOWED_CONTENT_TYPES"
    and "MAX_UPLOAD_SIZE srv < length (payload file)"
    and "open_error srv (upload_path srv file) = None"
  shows "status_code (fst (predict_handler srv file fs)) = 413 \<and>
         fst (snd (predict_handler srv file fs)) = fs(upload_path srv file := None) \<and>
         prefix (written (snd (snd (predict_handler srv file fs)))) (payload file) \<and>
         length (written (snd (snd (predict_handler srv file fs)))) \<le> MAX_UPLOAD_SIZE srv \<and>
         unlink_missing_ok (fst (snd (predict_handler srv file fs))) (upload_path srv file)
           = fst (snd (predict_handler srv file fs))"
proof -
  let ?p = "upload_path srv file"
  let ?evs = "[EvMkdir (UPLOAD_DIR srv), EvOpen ?p]"
  have big: "MAX_UPLOAD_SIZE srv < 0 + length (payload file)" using assms(2) by simp
  have opened: "(fs(?p \<mapsto> [])) ?p = Some []" by simp
  obtain w evs' where
    r: "stream_to_disk (MAX_UPLOAD_SIZE srv) chunk_size ?p (payload file) 0 (fs(?p \<mapsto> [])) ?evs
          = (True, (fs(?p \<mapsto> []))(?p := None), evs')"
    and w: "written evs' = written ?evs @ w"
    and pw: "prefix w (payload file)"
    and lw: "0 + length w \<le> MAX_UPLOAD_SIZE srv"
    using stream_over_limit [where limit = "MAX_UPLOAD_SIZE srv" and csize = chunk_size
        and uploaded = 0 and rest = "payload file" and fs = "fs(?p \<mapsto> [])" and p = ?p
        and content = "[]" and evs = ?evs, OF chunk_size_pos big _ opened]
    by auto
  have res: "predict_handler srv file fs =
      (HTTPException 413 ''file too large'', fs(?p := None), evs' @ [EvCloseUpload])"
    using assms(1,3) r by (simp add: predict_handler_def Let_def)
  have wr: "written (evs' @ [EvCloseUpload]) = w"
    using w by (simp add: written_append)
  have gone: "unlink_missing_ok (fs(?p := None)) ?p = fs(?p := None)"
    by (simp add: unlink_missing)
  show ?thesis using res wr pw lw gone by (simp add: status_code_def)
qed

theorem payload_too_large_witness:
  "lower (case content_type big_jpeg of None \<Rightarrow> [] | Some t \<Rightarrow> t) \<in> ALLOWED_CONTENT_TYPES \<and>
   MAX_UPLOAD_SIZE tiny_server < length (payload big_jpeg) \<and>
   open_error tiny_server (upload_path tiny_server big_jpeg) = None \<and>
   status_code (fst (predict_handler tiny_server big_jpeg Map.empty)) = 413 \<and>
   fst (snd (predict_handler tiny_server big_jpeg Map.empty)) (upload_path tiny_server big_jpeg) = None"
proof -
  have h1: "lower (case content_type big_jpeg of None \<Rightarrow> [] | Some t \<Rightarrow> t) \<in> ALLOWED_CONTENT_TYPES"
    by code_simp
  have h2: "MAX_UPLOAD_SIZE tiny_server < length (payload big_jpeg)"
    by (simp add: tiny_server_def big_jpeg_def)
  have h3: "open_error tiny_server (upload_path tiny_server big_jpeg) = None"
    by code_simp
  show ?thesis
    using h1 h2 h3 payload_too_large [OF h1 h2 h3, of Map.empty] by simp
qed

lemma handler_stores:
  assumes "lower (case content_type file of None \<Rightarrow> [] | Some t \<Rightarrow> t) \<in> ALLOWED_CONTENT_TYPES"
    and "length (payload file) \<le> MAX_UPLOAD_SIZE srv"
    and "pil_verify srv = None \<or> (\<exists>verify. pil_verify srv = Some verify \<and> verify (payload file))"
    and "open_error srv (upload_path srv file) = None"
  shows "\<exists>evs. predict_handler srv file fs =
           respond srv (upload_path srv file) (fs(upload_path srv file \<mapsto> payload file)) evs"
proof -
  let ?p = "upload_path srv file"
  let ?evs = "[EvMkdir (UPLOAD_DIR srv), EvOpen ?p]"
  let ?fs1 = "fs(?p \<mapsto> payload file)"
  have small: "0 + length (payload file) \<le> MAX_UPLOAD_SIZE srv" using assms(2) by simp
  have opened: "(fs(?p \<mapsto> [])) ?p = Some []" by simp
  obtain evs' where
    "stream_to_disk (MAX_UPLOAD_SIZE srv) chunk_size ?p (payload file) 0 (fs(?p \<mapsto> [])) ?evs
       = (False, (fs(?p \<mapsto> []))(?p \<mapsto> [] @ payload file), evs')"
    using stream_within_limit [where limit = "MAX_UPLOAD_SIZE srv" and csize = chunk_size
        and uploaded = 0 and rest = "payload file" and fs = "fs(?p \<mapsto> [])" and p = ?p
        and content = "[]" and evs = ?evs, OF chunk_size_pos small opened]
    by blast
  then have r: "stream_to_disk (MAX_UPLOAD_SIZE srv) chunk_size ?p (payload file) 0 (fs(?p \<mapsto> [])) ?evs
       = (False, ?fs1, evs')"
    by simp
  have valid: "image_valid srv ?fs1 ?p"
    using assms(3) by (auto simp: image_valid_def)
  have "predict_handler srv file fs = respond srv ?p ?fs1 (evs' @ [EvCloseUpload])"
    using assms(1,4) r valid by (simp add: predict_handler_def Let_def)
  then show ?thesis by blast
qed

text \<open>
  C7, as stated, fails in two ways, each for an upload that is small, of an
  allowed type and a valid image. When a model is configured and its
  \<open>infer\<close> raises, the file is stored and lines 129-130 answer 500. When
  the client's file name is longer than the file system allows,
  \<open>path.open("wb")\<close> raises, nothing is stored, and the answer is 500.
\<close>

theorem inference_failure_is_500:
  "lower (case content_type small_jpeg of None \<Rightarrow> [] | Some t \<Rightarrow> t) \<in> ALLOWED_CONTENT_TYPES \<and>
   length (payload small_jpeg) < MAX_UPLOAD_SIZE failing_server \<and>
   jpeg_magic (payload small_jpeg) \<and>
   open_error failing_server (upload_path failing_server small_jpeg) = None \<and>
   status_code (fst (predict_handler failing_server small_jpeg Map.empty)) = 500 \<and>
   lower (case content_type long_name_small of None \<Rightarrow> [] | Some t \<Rightarrow> t) \<in> ALLOWED_CONTENT_TYPES \<and>
   length (payload long_name_small) < MAX_UPLOAD_SIZE tiny_server \<and>
   jpeg_magic (payload long_name_small) \<and>
   status_code (fst (predict_handler tiny_server long_name_small Map.empty)) = 500"
proof -
  have h1: "lower (case content_type small_jpeg of None \<Rightarrow> [] | Some t \<Rightarrow> t) \<in> ALLOWED_CONTENT_TYPES"
    by code_simp
  have h2: "length (payload small_jpeg) < MAX_UPLOAD_SIZE failing_server"
    by (simp add: failing_server_def small_jpeg_def)
  have jm: "jpeg_magic (payload small_jpeg)"
    by (simp add: jpeg_magic_def small_jpeg_def)
  have h3: "pil_verify failing_server = None \<or>
      (\<exists>verify. pil_verify failing_server = Some verify \<and> verify (payload small_jpeg))"
    using jm by (simp add: failing_server_def)
  have h4: "open_error failing_server (upload_path failing_server small_jpeg) = None"
    by code_simp
  obtain evs where "predict_handler failing_server small_jpeg Map.empty =
      respond failing_server (upload_path failing_server small_jpeg)
        (Map.empty(upload_path failing_server small_jpeg \<mapsto> payload small_jpeg)) evs"
    using handler_stores [OF h1 less_imp_le [OF h2] h3 h4, of Map.empty] by blast
  then have a: "status_code (fst (predict_handler failing_server small_jpeg Map.empty)) = 500"
    by (simp add: respond_def failing_server_def status_code_def)
  have l1: "lower (case content_type long_name_small of None \<Rightarrow> [] | Some t \<Rightarrow> t) \<in> ALLOWED_CONTENT_TYPES"
    by code_simp
  have l2: "length (payload long_name_small) < MAX_UPLOAD_SIZE tiny_server"
    by (simp add: tiny_server_def long_name_small_def)
  have l3: "jpeg_magic (payload long_name_small)"
    by (simp add: jpeg_magic_def long_name_small_def)
  have l4: "open_error tiny_server (upload_path tiny_server long_name_small) =
      Some (OSError ''[Errno 36] File name too long'')"
    by code_simp
  have b: "status_code (fst (predict_handler tiny_server long_name_small Map.empty)) = 500"
    using handler_open_fails [OF l1 l4, of Map.empty] by (simp add: status_code_def)
  show ?thesis using h1 h2 jm h4 a l1 l2 l3 b by simp
qed

text \<open>
  C7 (amended): for every upload whose payload is no larger than the size
  ceiling, has an allowed content type and is accepted by the image check
  (or Pillow is absent), whose file can be opened for writing under the
  upload directory, and for which no model is configured or the model's
  inference returns, the handler answers 200, the \<open>path\<close> entry of the
  response body is the upload's path, and the file at that path holds exactly
  the uploaded bytes, in order.
\<close>

theorem upload_stored:
  assumes "lower (case content_type file of None \<Rightarrow> [] | Some t \<Rightarrow> t) \<in> ALLOWED_CONTENT_TYPES"
    and "length (payload file) \<le> MAX_UPLOAD_SIZE srv"
    and "pil_verify srv = None \<or> (\<exists>verify. pil_verify srv = Some verify \<and> verify (payload file))"
    and "MODEL srv = None \<or>
         (\<exists>infer result. MODEL srv = Some infer \<and> infer (upload_path srv file) = Inr result)"
    and "open_error srv (upload_path srv file) = None"
  shows "status_code (fst (predict_handler srv file fs)) = 200 \<and>
         dict_get (response_body (fst (predict_handler srv file fs))) ''path''
           = Some (JStr (upload_path srv file)) \<and>
         fst (snd (predict_handler srv file fs)) (upload_path srv file) = Some (payload file) \<and>
         fst (snd (predict_handler srv file fs)) = fs(upload_path srv file \<mapsto> payload file)"
proof -
  let ?p = "upload_path srv file"
  let ?fs1 = "fs(?p \<mapsto> payload file)"
  obtain evs where res: "predict_handler srv file fs = respond srv ?p ?fs1 evs"
    using handler_stores [OF assms(1,2,3,5)] by blast
  from assms(4) show ?thesis
  proof
    assume "MODEL srv = None"
    then show ?thesis using res
      by (simp add: respond_def status_code_def response_body_def dict_get_def)
  next
    assume "\<exists>infer result. MODEL srv = Some infer \<and> infer ?p = Inr result"
    then obtain infer result where "MODEL srv = Some infer" "infer ?p = Inr result" by blast
    then show ?thesis using res
      by (simp add: respond_def status_code_def response_body_def dict_get_def)
  qed
qed

theorem upload_stored_witness:
  "lower (case content_type small_jpeg of None \<Rightarrow> [] | Some t \<Rightarrow> t) \<in> ALLOWED_CONTENT_TYPES \<and>
   length (payload small_jpeg) \<le> MAX_UPLOAD_SIZE tiny_server \<and>
   jpeg_magic (payload small_jpeg) \<and>
   upload_path tiny_server small_jpeg = ''uploads/0f3a_cat.jpg'' \<and>
   open_error tiny_server (upload_path tiny_server small_jpeg) = None \<and>
   status_code (fst (predict_handler tiny_server small_jpeg Map.empty)) = 200 \<and>
   fst (snd (predict_handler tiny_server small_jpeg Map.empty)) ''uploads/0f3a_cat.jpg''
     = Some [0xFF, 0xD8, 0x01]"
proof -
  have h1: "lower (case content_type small_jpeg of None \<Rightarrow> [] | Some t \<Rightarrow> t) \<in> ALLOWED_CONTENT_TYPES"
    by code_simp
  have h2: "length (payload small_jpeg) \<le> MAX_UPLOAD_SIZE tiny_server"
    by (simp add: tiny_server_def small_jpeg_def)
  have jm: "jpeg_magic (payload small_jpeg)"
    by (simp add: jpeg_magic_def small_jpeg_def)
  have h3: "pil_verify tiny_server = None \<or>
      (\<exists>verify. pil_verify tiny_server = Some verify \<and> verify (payload small_jpeg))"
    using jm by (simp add: tiny_server_def)
  have up: "upload_path tiny_server small_jpeg = ''uploads/0f3a_cat.jpg''"
    by code_simp
  have h4: "MODEL tiny_server = None \<or>
      (\<exists>infer result. MODEL tiny_server = Some infer \<and>
         infer (upload_path tiny_server small_jpeg) = Inr result)"
    by (simp add: tiny_server_def)
  have pl: "payload small_jpeg = [0xFF, 0xD8, 0x01]" by (simp add: small_jpeg_def)
  have h5: "open_error tiny_server (upload_path tiny_server small_jpeg) = None"
    by code_simp
  show ?thesis
    using h1 h2 jm up pl h5 upload_stored [OF h1 h2 h3 h4 h5, of Map.empty] by simp
qed

end
